theory Spec2Isabelle
  imports Main
begin

section \<open>pyEPR \<open>project_info.py\<close>: the session and metadata manager\<close>

text \<open>
  The class \<open>ProjectInfo\<close> of \<open>src/pyEPR/project_info.py\<close> is a mutable Python object
  that talks to an external simulation tool. The embedding makes both explicit:
  \<^item> the object is a record \<open>pinfo\<close>; every method takes the record and returns the
    updated record together with either its return value (\<open>Inr\<close>) or the exception that
    left it (\<open>Inl\<close>). The record returned with an exception is the object as the
    exception found it, since Python does not roll attribute writes back;
  \<^item> the external tool (module \<open>ansys\<close>, not part of the sources) is a record \<open>tool\<close>
    of answer functions, a parameter of every method;
  \<^item> the calls made to the tool during connection and release, the logger lines and
    the \<open>print\<close> of \<open>connect\<close> are appended, in program order, to the field \<open>history\<close>.
    It is not a Python attribute: it is the observable trace of the object.
\<close>

subsection \<open>Values, exceptions, events\<close>

type_synonym handle = nat

text \<open>The Python values that a caller can store in the dissipative configuration.
  \<open>PInfoRef\<close> is the reference to the owning \<open>ProjectInfo\<close> object (\<open>self\<close>).\<close>

datatype pyval =
    PNone
  | PStr string
  | PInt int
  | PList "pyval list"
  | PTuple "pyval list"
  | PDict "(pyval \<times> pyval) list"
  | PInfoRef

text \<open>One constructor for each \<open>assert\<close> of the source, with the arguments of its message.\<close>

datatype assert_msg =
    NotConnected
  | LjVariableMissing string string
  | ObjectMissing string string string

datatype exn =
    AttributeError
  | TypeError
  | KeyError string
  | ValueError string
  | AssertionError assert_msg
  | ToolError string
  | Exception string

datatype level = Info | Warning | Error

datatype tool_call =
    LoadAnsysProject "string option" "string option"
  | GetDesigns handle
  | GetActiveDesign handle
  | GetDesign handle string
  | GetSetupNames handle
  | CreateEmSetup handle
  | CreateDmSetup handle
  | CreateDtSetup handle
  | CreateQ3dSetup handle
  | GetSetup handle string
  | ReleaseProject handle
  | ReleaseDesktop handle
  | ReleaseApp handle
  | ReleaseAnsys

datatype event =
    Log level string
  | Printed exn
  | ToolCall tool_call

subsection \<open>The external tool\<close>

text \<open>
  The module \<open>ansys\<close> and the handle classes it returns are not in the sources, so the
  tool is a parameter of the model: a record with one field for each call that the
  source makes, named after the class and the method of the call. A call that the
  source guards with \<open>try\<close> answers \<open>Inl\<close> when the tool raises. Attribute reads
  (\<open>name\<close>, \<open>solution_type\<close>), \<open>get_path\<close>, the name queries and \<open>release\<close> return
  normally. As in the data model of the specification, the application and desktop
  handles that \<open>load_ansys_project\<close> returns are never null and the project handle may
  be. \<open>path_str\<close> is \<open>str(Path(...))\<close> of the host.
\<close>

record tool =
  load_ansys_project :: "string option \<Rightarrow> string option \<Rightarrow> exn + (handle \<times> handle \<times> handle option)"
  project_name_attr :: "handle \<Rightarrow> string"
  project_get_path :: "handle \<Rightarrow> string"
  project_get_designs :: "handle \<Rightarrow> exn + handle list"
  project_get_active_design :: "handle \<Rightarrow> exn + handle option"
  project_get_design :: "handle \<Rightarrow> string \<Rightarrow> exn + handle option"
  project_get_variable_names :: "handle \<Rightarrow> string list"
  design_name_attr :: "handle \<Rightarrow> string"
  design_solution_type :: "handle \<Rightarrow> string"
  design_get_setup_names :: "handle \<Rightarrow> exn + string list"
  design_create_em_setup :: "handle \<Rightarrow> exn + handle option"
  design_create_dm_setup :: "handle \<Rightarrow> exn + handle option"
  design_create_dt_setup :: "handle \<Rightarrow> exn + handle option"
  design_create_q3d_setup :: "handle \<Rightarrow> exn + handle option"
  design_get_setup :: "handle \<Rightarrow> string \<Rightarrow> exn + handle option"
  design_get_variable_names :: "handle \<Rightarrow> string list"
  modeler_get_objects_in_group :: "handle \<Rightarrow> string \<Rightarrow> string list"
  setup_name_attr :: "handle \<Rightarrow> string"
  path_str :: "string \<Rightarrow> string"

subsection \<open>The object\<close>

text \<open>
  The attributes of \<open>ProjectInfo\<close>. A junction is a Python dict from field names to
  strings; \<open>junctions\<close> and \<open>ports\<close> are ordered dicts, kept as association lists.
  The \<open>_Dissipative\<close> object is the map of its instance attributes. The attribute
  \<open>setup\<close> is the field \<open>setup_h\<close>.
\<close>

type_synonym junction = "string \<rightharpoonup> string"

record pinfo =
  project_path :: "string option"
  project_name :: "string option"
  design_name :: "string option"
  setup_name :: "string option"
  junctions :: "(string \<times> junction) list"
  ports :: "(string \<times> junction) list"
  dissipative :: "string \<rightharpoonup> pyval"
  app :: "handle option"
  desktop :: "handle option"
  project :: "handle option"
  design :: "handle option"
  setup_h :: "handle option"
  history :: "event list"

definition log :: "level \<Rightarrow> string \<Rightarrow> pinfo \<Rightarrow> pinfo" where
  "log l m s = s\<lparr>history := history s @ [Log l m]\<rparr>"

definition call :: "tool_call \<Rightarrow> pinfo \<Rightarrow> pinfo" where
  "call c s = s\<lparr>history := history s @ [ToolCall c]\<rparr>"

text \<open>How an f-string prints an attribute that holds a string or \<open>None\<close>.\<close>

definition fmt :: "string option \<Rightarrow> string" where
  "fmt x = (case x of None \<Rightarrow> ''None'' | Some n \<Rightarrow> n)"

definition diss_opt :: "string list" where
  "diss_opt = [''dielectrics_bulk'', ''dielectric_surfaces'', ''resistive_surfaces'', ''seams'']"

subsection \<open>\<open>check_connected\<close> and \<open>disconnect\<close>\<close>

definition check_connected :: "pinfo \<Rightarrow> bool" where
  "check_connected s =
     (setup_h s \<noteq> None \<and> design s \<noteq> None \<and> project s \<noteq> None \<and>
      desktop s \<noteq> None \<and> app s \<noteq> None)"

text \<open>
  The four statements \<open>self.project.release(); self.desktop.release();
  self.app.release(); ansys.release()\<close>, which the source has twice: in the \<open>except\<close>
  block of \<open>connect\<close> and at the end of \<open>disconnect\<close>. Calling \<open>release\<close> on an
  attribute that is \<open>None\<close> is an \<open>AttributeError\<close>.
\<close>

definition release_all :: "pinfo \<Rightarrow> (exn + unit) \<times> pinfo" where
  "release_all s =
     (case project s of
        None \<Rightarrow> (Inl AttributeError, s)
      | Some p \<Rightarrow>
          let s1 = call (ReleaseProject p) s in
          (case desktop s1 of
             None \<Rightarrow> (Inl AttributeError, s1)
           | Some d \<Rightarrow>
               let s2 = call (ReleaseDesktop d) s1 in
               (case app s2 of
                  None \<Rightarrow> (Inl AttributeError, s2)
                | Some a \<Rightarrow> (Inr (), call ReleaseAnsys (call (ReleaseApp a) s2)))))"

definition disconnect :: "pinfo \<Rightarrow> (exn + unit) \<times> pinfo" where
  "disconnect s =
     (if \<not> check_connected s then (Inl (AssertionError NotConnected), s)
      else release_all s)"

subsection \<open>\<open>connect_project\<close>, \<open>connect_design\<close>\<close>

definition connect_project :: "tool \<Rightarrow> pinfo \<Rightarrow> (exn + unit) \<times> pinfo" where
  "connect_project T s =
     (let s1 = log Info ''Connecting to Ansys Desktop API...'' s;
          s2 = call (LoadAnsysProject (project_name s1) (project_path s1)) s1
      in case load_ansys_project T (project_name s1) (project_path s1) of
           Inl e \<Rightarrow> (Inl e, s2)
         | Inr (a, d, p) \<Rightarrow>
             let s3 = s2\<lparr>app := Some a, desktop := Some d, project := p\<rparr>
             in (case project s3 of
                   None \<Rightarrow> (Inr (), s3)
                 | Some ph \<Rightarrow>
                     (Inr (), s3\<lparr>project_name := Some (project_name_attr T ph),
                                 project_path := Some (project_get_path T ph)\<rparr>)))"

text \<open>
  The handler of the first \<open>try\<close> of \<open>connect_design\<close> (no design name given): the failure
  is logged and the design is put to \<open>None\<close>.
\<close>

definition no_active_design :: "pinfo \<Rightarrow> (exn + unit) \<times> pinfo" where
  "no_active_design s =
     (Inr (), log Info ''No active design found (or error getting active design). Note''
                (s\<lparr>design := None, design_name := None\<rparr>))"

text \<open>
  The handler of the second \<open>try\<close> (a design name was given): the original error is
  logged and a new \<open>Exception\<close> is raised.
\<close>

definition design_lookup_failed :: "pinfo \<Rightarrow> (exn + unit) \<times> pinfo" where
  "design_lookup_failed s =
     (Inl (Exception ''Did you provide the correct design name? Failed to pull up design.''),
      log Error ''Original error'' s)"

definition opened_design :: "tool \<Rightarrow> handle \<Rightarrow> pinfo \<Rightarrow> pinfo" where
  "opened_design T d s =
     log Info (''Opened active design Design: '' @ fmt (design_name s) @
               '' [Solution type: '' @ design_solution_type T d @ '']'') s"

text \<open>
  In both \<open>try\<close> blocks the answer of the tool is assigned to \<open>self.design\<close> first and
  an attribute of it is read next; when the tool answers \<open>None\<close> that read is the
  \<open>AttributeError\<close> which the handler receives, with \<open>self.design\<close> already \<open>None\<close>.
\<close>

definition connect_design :: "tool \<Rightarrow> string option \<Rightarrow> pinfo \<Rightarrow> (exn + unit) \<times> pinfo" where
  "connect_design T dn s =
     (let s1 = (case dn of None \<Rightarrow> s | Some n \<Rightarrow> s\<lparr>design_name := Some n\<rparr>)
      in case project s1 of
           None \<Rightarrow> (Inl AttributeError, s1)
         | Some p \<Rightarrow>
             let s2 = call (GetDesigns p) s1
             in (case project_get_designs T p of
                   Inl e \<Rightarrow> (Inl e, s2)
                 | Inr ds \<Rightarrow>
                     if ds = [] then
                       (Inr (), log Info ''No active design found (or error getting active design).''
                                  (s2\<lparr>design := None\<rparr>))
                     else
                       (case design_name s2 of
                          None \<Rightarrow>
                            let s3 = call (GetActiveDesign p) s2
                            in (case project_get_active_design T p of
                                  Inl e \<Rightarrow> no_active_design s3
                                | Inr None \<Rightarrow> no_active_design (s3\<lparr>design := None\<rparr>)
                                | Inr (Some d) \<Rightarrow>
                                    (Inr (), opened_design T d
                                       (s3\<lparr>design := Some d,
                                           design_name := Some (design_name_attr T d)\<rparr>)))
                        | Some n \<Rightarrow>
                            let s3 = call (GetDesign p n) s2
                            in (case project_get_design T p n of
                                  Inl e \<Rightarrow> design_lookup_failed s3
                                | Inr None \<Rightarrow> design_lookup_failed (s3\<lparr>design := None\<rparr>)
                                | Inr (Some d) \<Rightarrow>
                                    (Inr (), opened_design T d (s3\<lparr>design := Some d\<rparr>))))))"

subsection \<open>\<open>get_setup\<close>, \<open>connect_setup\<close>\<close>

text \<open>
  \<open>get_setup\<close>: after the logger line for an unresolved setup the source goes on to
  \<open>self.setup_name = self.setup.name\<close>, with \<open>self.setup\<close> being \<open>None\<close>.
\<close>

definition get_setup :: "tool \<Rightarrow> string option \<Rightarrow> pinfo \<Rightarrow> (exn + handle option) \<times> pinfo" where
  "get_setup T name s =
     (case name of
        None \<Rightarrow> (Inr None, s)
      | Some n \<Rightarrow>
          (case design s of
             None \<Rightarrow> (Inl AttributeError, s)
           | Some d \<Rightarrow>
               let s1 = call (GetSetup d n) s
               in (case design_get_setup T d n of
                     Inl e \<Rightarrow> (Inl e, s1)
                   | Inr None \<Rightarrow>
                       (Inl AttributeError,
                        log Error (''Could not retrieve setup: '' @ n @
                                   '' Did you give the right name? Does it exist?'')
                          (s1\<lparr>setup_h := None\<rparr>))
                   | Inr (Some h) \<Rightarrow>
                       (Inr (Some h),
                        log Info (''Opened setup '' @ setup_name_attr T h)
                          (s1\<lparr>setup_h := Some h,
                              setup_name := Some (setup_name_attr T h)\<rparr>)))))"

text \<open>
  The branch \<open>len(setup_names) == 0\<close> of \<open>connect_setup\<close>: the local variable \<open>setup\<close>
  starts as \<open>None\<close>, the \<open>if\<close>/\<open>elif\<close> chain over the solution type has no \<open>else\<close>, and
  \<open>self.setup_name = setup.name\<close> follows it.
\<close>

definition create_default_setup :: "tool \<Rightarrow> handle \<Rightarrow> pinfo \<Rightarrow> (exn + unit) \<times> pinfo" where
  "create_default_setup T d s =
     (let s1 = log Warning ''No design setup detected.'' s;
          (r, s2) =
            (if design_solution_type T d = ''Eigenmode'' then
               (design_create_em_setup T d,
                call (CreateEmSetup d) (log Warning ''Creating eigenmode default setup.'' s1))
             else if design_solution_type T d = ''DrivenModal'' then
               (design_create_dm_setup T d,
                call (CreateDmSetup d) (log Warning ''Creating driven modal default setup.'' s1))
             else if design_solution_type T d = ''DrivenTerminal'' then
               (design_create_dt_setup T d,
                call (CreateDtSetup d) (log Warning ''Creating driven terminal default setup.'' s1))
             else if design_solution_type T d = ''Q3D'' then
               (design_create_q3d_setup T d,
                call (CreateQ3dSetup d) (log Warning ''Creating Q3D default setup.'' s1))
             else (Inr None, s1))
      in case r of
           Inl e \<Rightarrow> (Inl e, s2)
         | Inr None \<Rightarrow> (Inl AttributeError, s2)
         | Inr (Some h) \<Rightarrow> (Inr (), s2\<lparr>setup_name := Some (setup_name_attr T h)\<rparr>))"

text \<open>The body of the \<open>try\<close> of \<open>connect_setup\<close>, for the design \<open>d\<close>.\<close>

definition connect_setup_try :: "tool \<Rightarrow> handle \<Rightarrow> pinfo \<Rightarrow> (exn + unit) \<times> pinfo" where
  "connect_setup_try T d s =
     (let s1 = call (GetSetupNames d) s
      in case design_get_setup_names T d of
           Inl e \<Rightarrow> (Inl e, s1)
         | Inr setup_names \<Rightarrow>
             (case (if length setup_names = 0 then create_default_setup T d s1
                    else if setup_name s1 = None then
                      (Inr (), log Warning (''no setup name was specified, will use the first setup '' @
                                            hd setup_names)
                                 (s1\<lparr>setup_name := Some (hd setup_names)\<rparr>))
                    else (Inr (), s1)) of
                (Inl e, s2) \<Rightarrow> (Inl e, s2)
              | (Inr u, s2) \<Rightarrow>
                  (case get_setup T (setup_name s2) s2 of
                     (Inl e, s3) \<Rightarrow> (Inl e, s3)
                   | (Inr h, s3) \<Rightarrow> (Inr (), s3))))"

definition connect_setup :: "tool \<Rightarrow> pinfo \<Rightarrow> (exn + unit) \<times> pinfo" where
  "connect_setup T s =
     (case design s of
        Some d \<Rightarrow>
          (case connect_setup_try T d s of
             (Inl e, s1) \<Rightarrow>
               (Inl (Exception ''Did you provide the correct setup name? Failed to pull up setup.''),
                log Error ''Original error'' s1)
           | (Inr u, s1) \<Rightarrow> (Inr (), s1))
      | None \<Rightarrow> (Inr (), s\<lparr>setup_h := None, setup_name := None\<rparr>))"

subsection \<open>\<open>connect\<close>\<close>

text \<open>The statements of \<open>connect\<close> after the comment \<open># Finalize\<close>.\<close>

definition connect_finalize :: "tool \<Rightarrow> pinfo \<Rightarrow> pinfo" where
  "connect_finalize T s =
     (let s1 = (case project s of
                  Some p \<Rightarrow> s\<lparr>project_name := Some (project_name_attr T p)\<rparr> | None \<Rightarrow> s);
          s2 = (case design s1 of
                  Some d \<Rightarrow> s1\<lparr>design_name := Some (design_name_attr T d)\<rparr> | None \<Rightarrow> s1);
          s3 = (if project s2 \<noteq> None \<and> design s2 \<noteq> None then
                  log Info (''Connected to project '' @ fmt (project_name s2) @
                            '' and design '' @ fmt (design_name s2)) s2
                else s2);
          s4 = (if project s3 = None then
                  log Info ''Project not detected in Ansys. Is there a project in your desktop app?'' s3
                else s3)
      in (if design s4 = None then
            log Info (''Connected to project '' @ fmt (project_name s4) @
                      ''. No design detected'') s4
          else s4))"

text \<open>
  \<open>connect\<close>. The call \<open>self.connect_setup()\<close> is at the level of the function body,
  after both \<open>if\<close> statements on \<open>self.project\<close>.
\<close>

definition connect :: "tool \<Rightarrow> pinfo \<Rightarrow> (exn + unit) \<times> pinfo" where
  "connect T s =
     (case connect_project T s of
        (Inl e, s1) \<Rightarrow> (Inl e, s1)
      | (Inr u, s1) \<Rightarrow>
          (case (case project s1 of
                   None \<Rightarrow> (Inr (), log Info ''Connection to Ansys NOT established.'' s1)
                 | Some p \<Rightarrow>
                     (case connect_design T None s1 of
                        (Inr u, s2) \<Rightarrow> (Inr (), s2)
                      | (Inl e, s2) \<Rightarrow> release_all (s2\<lparr>history := history s2 @ [Printed e]\<rparr>))) of
             (Inl e, s3) \<Rightarrow> (Inl e, s3)
           | (Inr u, s3) \<Rightarrow>
               (case connect_setup T s3 of
                  (Inl e, s4) \<Rightarrow> (Inl e, s4)
                | (Inr u, s4) \<Rightarrow> (Inr (), connect_finalize T s4))))"

subsection \<open>Name queries and \<open>validate_junction_info\<close>\<close>

definition get_all_variables_names :: "tool \<Rightarrow> pinfo \<Rightarrow> exn + string list" where
  "get_all_variables_names T s =
     (case project s of
        None \<Rightarrow> Inl AttributeError
      | Some p \<Rightarrow>
          (case design s of
             None \<Rightarrow> Inl AttributeError
           | Some d \<Rightarrow> Inr (project_get_variable_names T p @ design_get_variable_names T d)))"

definition get_all_object_names :: "tool \<Rightarrow> pinfo \<Rightarrow> exn + string list" where
  "get_all_object_names T s =
     (case design s of
        None \<Rightarrow> Inl AttributeError
      | Some d \<Rightarrow>
          Inr (concat (map (modeler_get_objects_in_group T d)
                 [''Non Model'', ''Solids'', ''Unclassified'', ''Sheets'', ''Lines''])))"

text \<open>The inner loop \<open>for name in ['rect', 'line']\<close> for one junction.\<close>

fun check_names :: "string list \<Rightarrow> string \<Rightarrow> junction \<Rightarrow> string list \<Rightarrow> exn + unit" where
  "check_names all_object_names jjnm jj [] = Inr ()"
| "check_names all_object_names jjnm jj (name # names) =
     (case jj name of
        None \<Rightarrow> Inl (KeyError name)
      | Some v \<Rightarrow>
          if v \<in> set all_object_names then check_names all_object_names jjnm jj names
          else Inl (AssertionError (ObjectMissing jjnm name v)))"

text \<open>The loop \<open>for jjnm, jj in self.junctions.items()\<close>.\<close>

fun check_junctions :: "string list \<Rightarrow> string list \<Rightarrow> (string \<times> junction) list \<Rightarrow> exn + unit" where
  "check_junctions all_variables_names all_object_names [] = Inr ()"
| "check_junctions all_variables_names all_object_names ((jjnm, jj) # rest) =
     (case jj ''Lj_variable'' of
        None \<Rightarrow> Inl (KeyError ''Lj_variable'')
      | Some lj \<Rightarrow>
          if lj \<in> set all_variables_names then
            (case check_names all_object_names jjnm jj [''rect'', ''line''] of
               Inl e \<Rightarrow> Inl e
             | Inr u \<Rightarrow> check_junctions all_variables_names all_object_names rest)
          else Inl (AssertionError (LjVariableMissing jjnm lj)))"

definition validate_junction_info :: "tool \<Rightarrow> pinfo \<Rightarrow> exn + unit" where
  "validate_junction_info T s =
     (case get_all_variables_names T s of
        Inl e \<Rightarrow> Inl e
      | Inr all_variables_names \<Rightarrow>
          (case get_all_object_names T s of
             Inl e \<Rightarrow> Inl e
           | Inr all_object_names \<Rightarrow>
               check_junctions all_variables_names all_object_names (junctions s)))"

subsection \<open>The dissipative configuration\<close>

fun is_str :: "pyval \<Rightarrow> bool" where
  "is_str (PStr n) = True"
| "is_str v = False"

fun is_list_or_dict :: "pyval \<Rightarrow> bool" where
  "is_list_or_dict (PList xs) = True"
| "is_list_or_dict (PDict kvs) = True"
| "is_list_or_dict v = False"

text \<open>What \<open>for x in value\<close> runs over; \<open>None\<close> when the value is not iterable
  (a \<open>TypeError\<close> in Python). A dict is iterated by its keys.\<close>

fun py_iter :: "pyval \<Rightarrow> pyval list option" where
  "py_iter (PList xs) = Some xs"
| "py_iter (PTuple xs) = Some xs"
| "py_iter (PDict kvs) = Some (map fst kvs)"
| "py_iter (PStr n) = Some (map (\<lambda>c. PStr [c]) n)"
| "py_iter v = None"

definition all_str :: "pyval \<Rightarrow> bool" where
  "all_str v = (case py_iter v of None \<Rightarrow> False | Some xs \<Rightarrow> list_all is_str xs)"

fun py_in :: "pyval \<Rightarrow> string list \<Rightarrow> bool" where
  "py_in (PStr n) names = (n \<in> set names)"
| "py_in v names = False"

fun py_str :: "pyval \<Rightarrow> string" where
  "py_str (PStr n) = n"
| "py_str v = ''<object>''"

definition hasattr_design :: "pyval \<Rightarrow> bool" where
  "hasattr_design v = (v = PInfoRef)"

text \<open>
  The loop of \<open>__setitem__\<close> over the names of the value. The source calls
  \<open>get_all_object_names()\<close> of the owning object anew for every name; \<open>names\<close> is the
  outcome of that call.
\<close>

fun check_objects :: "exn + string list \<Rightarrow> pyval list \<Rightarrow> exn + unit" where
  "check_objects names [] = Inr ()"
| "check_objects names (x # xs) =
     (case names of
        Inl e \<Rightarrow> Inl e
      | Inr all_object_names \<Rightarrow>
          if \<not> py_in x all_object_names then
            Inl (ValueError (py_str x @ '' is not an object in the HFSS project''))
          else check_objects names xs)"

definition dissipative_getitem :: "pinfo \<Rightarrow> string \<Rightarrow> exn + pyval" where
  "dissipative_getitem s attr =
     (if \<not> (attr \<in> set diss_opt \<or> attr = ''pinfo'') then Inl AttributeError
      else case dissipative s attr of None \<Rightarrow> Inl AttributeError | Some v \<Rightarrow> Inr v)"

text \<open>
  \<open>_Dissipative.__setitem__\<close>, as a method on the object that owns the configuration:
  the back-reference \<open>self['pinfo']\<close>, when it is set, is that object.
\<close>

definition dissipative_setitem :: "tool \<Rightarrow> string \<Rightarrow> pyval \<Rightarrow> pinfo \<Rightarrow> (exn + unit) \<times> pinfo" where
  "dissipative_setitem T key val s =
     (if \<not> (key \<in> set diss_opt \<or> key = ''pinfo'') then
        (Inl (ValueError (''No such parameter '' @ key)), s)
      else if key \<noteq> ''pinfo'' \<and> (\<not> is_list_or_dict val \<or> \<not> all_str val) \<and> val \<noteq> PNone then
        (Inl (ValueError (''dissipative['' @ key @ ''] must be a list of strings'')), s)
      else if key \<noteq> ''pinfo'' then
        (case dissipative_getitem s ''pinfo'' of
           Inl e \<Rightarrow> (Inl e, s)
         | Inr owner \<Rightarrow>
             if hasattr_design owner then
               (case py_iter val of
                  None \<Rightarrow> (Inl TypeError, s)
                | Some xs \<Rightarrow>
                    (case check_objects (get_all_object_names T s) xs of
                       Inl e \<Rightarrow> (Inl e, s)
                     | Inr u \<Rightarrow> (Inr (), s\<lparr>dissipative := (dissipative s)(key \<mapsto> val)\<rparr>)))
             else (Inr (), s\<lparr>dissipative := (dissipative s)(key \<mapsto> val)\<rparr>))
      else (Inr (), s\<lparr>dissipative := (dissipative s)(key \<mapsto> val)\<rparr>))"

fun setitem_all :: "tool \<Rightarrow> (string \<times> pyval) list \<Rightarrow> pinfo \<Rightarrow> (exn + unit) \<times> pinfo" where
  "setitem_all T [] s = (Inr (), s)"
| "setitem_all T ((key, val) # kvs) s =
     (case dissipative_setitem T key val s of
        (Inl e, s1) \<Rightarrow> (Inl e, s1)
      | (Inr u, s1) \<Rightarrow> setitem_all T kvs s1)"

subsection \<open>The constructor\<close>

text \<open>
  \<open>ProjectInfo.__init__\<close>. The configuration object is built by
  \<open>_Dissipative.__init__\<close>, which writes \<open>None\<close> to \<open>'pinfo'\<close> and to the four slots
  through \<open>__setitem__\<close>; the constructor then writes its four arguments to the slots.
  The last two statements, \<open>self.connect()\<close> and \<open>self.dissipative['pinfo'] = self\<close>, are
  both in the body of \<open>if do_connect\<close>. The attribute \<open>options\<close> is left out.
\<close>

definition init ::
  "tool \<Rightarrow> string option \<Rightarrow> string option \<Rightarrow> string option \<Rightarrow> string option \<Rightarrow>
   pyval \<Rightarrow> pyval \<Rightarrow> pyval \<Rightarrow> pyval \<Rightarrow> bool \<Rightarrow> (exn + unit) \<times> pinfo" where
  "init T project_path0 project_name0 design_name0 setup_name0
        dielectrics_bulk dielectric_surfaces resistive_surfaces seams do_connect =
     (let s0 = \<lparr>project_path = map_option (path_str T) project_path0,
                project_name = project_name0,
                design_name = design_name0,
                setup_name = setup_name0,
                junctions = [],
                ports = [],
                dissipative = Map.empty,
                app = None, desktop = None, project = None, design = None, setup_h = None,
                history = []\<rparr>
      in case setitem_all T ((''pinfo'', PNone) # map (\<lambda>opt. (opt, PNone)) diss_opt) s0 of
           (Inl e, s1) \<Rightarrow> (Inl e, s1)
         | (Inr u, s1) \<Rightarrow>
             (case setitem_all T
                     (zip diss_opt [dielectrics_bulk, dielectric_surfaces, resistive_surfaces, seams])
                     s1 of
                (Inl e, s2) \<Rightarrow> (Inl e, s2)
              | (Inr u, s2) \<Rightarrow>
                  if do_connect then
                    (case connect T s2 of
                       (Inl e, s3) \<Rightarrow> (Inl e, s3)
                     | (Inr u, s3) \<Rightarrow> dissipative_setitem T ''pinfo'' PInfoRef s3)
                  else (Inr (), s2)))"

subsection \<open>A test double of the tool, and two objects\<close>

text \<open>
  A tool with one project (handle 3) holding one eigenmode design (handle 4, named
  \<open>design1\<close>) with one setup (handle 5, named \<open>Setup1\<close>), a junction rectangle and a
  junction line. It is used to run the model on concrete inputs.
\<close>

definition fake_tool :: tool where
  "fake_tool =
     \<lparr>load_ansys_project = (\<lambda>pn pp. Inr (1, 2, Some 3)),
      project_name_attr = (\<lambda>p. ''proj''),
      project_get_path = (\<lambda>p. ''/work''),
      project_get_designs = (\<lambda>p. Inr [4]),
      project_get_active_design = (\<lambda>p. Inr (Some 4)),
      project_get_design = (\<lambda>p n. if n = ''design1'' then Inr (Some 4)
                                   else Inl (ToolError ''no such design'')),
      project_get_variable_names = (\<lambda>p. [''$g'']),
      design_name_attr = (\<lambda>d. ''design1''),
      design_solution_type = (\<lambda>d. ''Eigenmode''),
      design_get_setup_names = (\<lambda>d. Inr [''Setup1'']),
      design_create_em_setup = (\<lambda>d. Inr (Some 5)),
      design_create_dm_setup = (\<lambda>d. Inr (Some 5)),
      design_create_dt_setup = (\<lambda>d. Inr (Some 5)),
      design_create_q3d_setup = (\<lambda>d. Inr (Some 5)),
      design_get_setup = (\<lambda>d n. if n = ''Setup1'' then Inr (Some 5) else Inr None),
      design_get_variable_names = (\<lambda>d. [''Lj_1'', ''Cj_1'']),
      modeler_get_objects_in_group =
        (\<lambda>d g. if g = ''Sheets'' then [''jj_rect_1'']
               else if g = ''Lines'' then [''jj_line_1''] else []),
      setup_name_attr = (\<lambda>h. ''Setup1''),
      path_str = (\<lambda>p. p)\<rparr>"

text \<open>The same tool with no project open, and with a design of another solution type
  that has no setup yet.\<close>

definition no_project_tool :: tool where
  "no_project_tool = fake_tool\<lparr>load_ansys_project := (\<lambda>pn pp. Inr (1, 2, None))\<rparr>"

definition transient_tool :: tool where
  "transient_tool =
     fake_tool\<lparr>design_solution_type := (\<lambda>d. ''Transient''),
               design_get_setup_names := (\<lambda>d. Inr [])\<rparr>"

definition no_slots :: "string \<rightharpoonup> pyval" where
  "no_slots = [''pinfo'' \<mapsto> PNone, ''dielectrics_bulk'' \<mapsto> PNone,
               ''dielectric_surfaces'' \<mapsto> PNone, ''resistive_surfaces'' \<mapsto> PNone,
               ''seams'' \<mapsto> PNone]"

text \<open>The object that \<open>ProjectInfo(do_connect=False)\<close> builds.\<close>

definition new_pinfo :: pinfo where
  "new_pinfo =
     \<lparr>project_path = None, project_name = None, design_name = None, setup_name = None,
      junctions = [], ports = [], dissipative = no_slots,
      app = None, desktop = None, project = None, design = None, setup_h = None,
      history = []\<rparr>"

text \<open>The object that \<open>ProjectInfo()\<close> builds against \<open>fake_tool\<close>.\<close>

definition connected_pinfo :: pinfo where
  "connected_pinfo =
     \<lparr>project_path = Some ''/work'', project_name = Some ''proj'',
      design_name = Some ''design1'', setup_name = Some ''Setup1'',
      junctions = [], ports = [], dissipative = no_slots(''pinfo'' \<mapsto> PInfoRef),
      app = Some 1, desktop = Some 2, project = Some 3, design = Some 4, setup_h = Some 5,
      history =
        [Log Info ''Connecting to Ansys Desktop API...'',
         ToolCall (LoadAnsysProject None None),
         ToolCall (GetDesigns 3),
         ToolCall (GetActiveDesign 3),
         Log Info ''Opened active design Design: design1 [Solution type: Eigenmode]'',
         ToolCall (GetSetupNames 4),
         Log Warning ''no setup name was specified, will use the first setup Setup1'',
         ToolCall (GetSetup 4 ''Setup1''),
         Log Info ''Opened setup Setup1'',
         Log Info ''Connected to project proj and design design1'']\<rparr>"

subsection \<open>The junction check in the words of the specification\<close>

text \<open>
  A junction passes when its inductance variable is among the variable names and its
  rectangle and its line are among the object names. This predicate follows the
  specification, not the source; \<open>check_junctions\<close> above is the source.
\<close>

definition junction_ok :: "string list \<Rightarrow> string list \<Rightarrow> junction \<Rightarrow> bool" where
  "junction_ok all_variables_names all_object_names jj =
     ((case jj ''Lj_variable'' of None \<Rightarrow> False | Some v \<Rightarrow> v \<in> set all_variables_names) \<and>
      (case jj ''rect'' of None \<Rightarrow> False | Some v \<Rightarrow> v \<in> set all_object_names) \<and>
      (case jj ''line'' of None \<Rightarrow> False | Some v \<Rightarrow> v \<in> set all_object_names))"

text \<open>The connected object with three junctions: the first is right, the second names a
  rectangle and a line that the model does not have, the third a variable that it does
  not have.\<close>

definition junctions_pinfo :: pinfo where
  "junctions_pinfo =
     connected_pinfo\<lparr>junctions :=
       [(''j1'', [''Lj_variable'' \<mapsto> ''Lj_1'', ''rect'' \<mapsto> ''jj_rect_1'', ''line'' \<mapsto> ''jj_line_1'']),
        (''j2'', [''Lj_variable'' \<mapsto> ''Lj_1'', ''rect'' \<mapsto> ''jj_rect_2'', ''line'' \<mapsto> ''jj_line_2'']),
        (''j3'', [''Lj_variable'' \<mapsto> ''Lj_3'', ''rect'' \<mapsto> ''jj_rect_1'', ''line'' \<mapsto> ''jj_line_1''])]\<rparr>"

section \<open>Properties\<close>

subsection \<open>Running the model on the test double\<close>

lemmas model_defs =
  log_def call_def fmt_def diss_opt_def check_connected_def release_all_def disconnect_def
  connect_project_def no_active_design_def design_lookup_failed_def opened_design_def
  connect_design_def get_setup_def create_default_setup_def connect_setup_try_def
  connect_setup_def connect_finalize_def connect_def get_all_variables_names_def
  get_all_object_names_def validate_junction_info_def all_str_def hasattr_design_def
  dissipative_getitem_def dissipative_setitem_def init_def

lemmas example_defs =
  fake_tool_def no_slots_def new_pinfo_def connected_pinfo_def

lemma init_new:
  "init fake_tool None None None None PNone PNone PNone PNone False = (Inr (), new_pinfo)"
  by (simp add: model_defs example_defs fun_eq_iff)

lemma init_connected:
  "init fake_tool None None None None PNone PNone PNone PNone True = (Inr (), connected_pinfo)"
  by (simp add: model_defs example_defs fun_eq_iff)

subsection \<open>What each method leaves unchanged\<close>

lemma connect_project_frame:
  assumes "connect_project T s = (r, s1)"
  shows "junctions s1 = junctions s \<and> ports s1 = ports s \<and> dissipative s1 = dissipative s \<and>
         design s1 = design s \<and> setup_h s1 = setup_h s \<and>
         design_name s1 = design_name s \<and> setup_name s1 = setup_name s \<and>
         history s1 = history s @ [Log Info ''Connecting to Ansys Desktop API...'',
                                   ToolCall (LoadAnsysProject (project_name s) (project_path s))]"
  using assms
  by (auto simp: connect_project_def log_def call_def Let_def split: sum.splits option.splits prod.splits)

lemma connect_project_handles:
  assumes "connect_project T s = (Inr u, s1)"
  shows "\<exists>a d. app s1 = Some a \<and> desktop s1 = Some d"
  using assms
  by (auto simp: connect_project_def log_def call_def Let_def split: sum.splits option.splits prod.splits)

lemma connect_project_name:
  assumes "connect_project T s = (Inr u, s1)" and "project s1 = None"
  shows "project_name s1 = project_name s"
  using assms
  by (auto simp: connect_project_def log_def call_def Let_def split: sum.splits option.splits prod.splits)

lemma connect_design_frame:
  assumes "connect_design T dn s = (r, s')"
  shows "junctions s' = junctions s \<and> ports s' = ports s \<and> dissipative s' = dissipative s \<and>
         app s' = app s \<and> desktop s' = desktop s \<and> project s' = project s \<and>
         setup_h s' = setup_h s \<and> setup_name s' = setup_name s"
  using assms
  by (auto simp: connect_design_def no_active_design_def design_lookup_failed_def opened_design_def
        log_def call_def Let_def split: sum.splits option.splits if_splits)

lemma get_setup_frame:
  assumes "get_setup T name s = (r, s')"
  shows "junctions s' = junctions s \<and> ports s' = ports s \<and> dissipative s' = dissipative s \<and>
         app s' = app s \<and> desktop s' = desktop s \<and> project s' = project s \<and>
         design s' = design s \<and> design_name s' = design_name s"
  using assms
  by (auto simp: get_setup_def log_def call_def Let_def split: sum.splits option.splits)

lemma create_default_setup_frame:
  assumes "create_default_setup T d s = (r, s')"
  shows "junctions s' = junctions s \<and> ports s' = ports s \<and> dissipative s' = dissipative s \<and>
         app s' = app s \<and> desktop s' = desktop s \<and> project s' = project s \<and>
         design s' = design s \<and> design_name s' = design_name s \<and> setup_h s' = setup_h s"
  using assms
  by (auto simp: create_default_setup_def log_def call_def Let_def
           split: sum.splits option.splits if_splits prod.splits)

lemma connect_setup_try_frame:
  assumes "connect_setup_try T d s = (r, s')"
  shows "junctions s' = junctions s \<and> ports s' = ports s \<and> dissipative s' = dissipative s \<and>
         app s' = app s \<and> desktop s' = desktop s \<and> project s' = project s \<and>
         design s' = design s \<and> design_name s' = design_name s"
  using assms
  by (auto simp: connect_setup_try_def log_def call_def Let_def
           split: sum.splits option.splits if_splits prod.splits
           dest!: create_default_setup_frame get_setup_frame)

lemma connect_setup_frame:
  assumes "connect_setup T s = (r, s')"
  shows "junctions s' = junctions s \<and> ports s' = ports s \<and> dissipative s' = dissipative s \<and>
         app s' = app s \<and> desktop s' = desktop s \<and> project s' = project s \<and>
         design s' = design s \<and> design_name s' = design_name s"
  using assms
  by (auto simp: connect_setup_def log_def Let_def
           split: sum.splits option.splits prod.splits
           dest!: connect_setup_try_frame)

lemma connect_finalize_frame:
  "junctions (connect_finalize T s) = junctions s \<and> ports (connect_finalize T s) = ports s \<and>
   dissipative (connect_finalize T s) = dissipative s \<and>
   app (connect_finalize T s) = app s \<and> desktop (connect_finalize T s) = desktop s \<and>
   project (connect_finalize T s) = project s \<and> design (connect_finalize T s) = design s \<and>
   setup_h (connect_finalize T s) = setup_h s \<and> setup_name (connect_finalize T s) = setup_name s"
  by (auto simp: connect_finalize_def log_def Let_def split: option.splits)

lemma release_all_frame:
  assumes "release_all s = (r, s')"
  shows "s' = s\<lparr>history := history s'\<rparr>"
  using assms
  by (auto simp: release_all_def call_def Let_def split: option.splits)

lemma release_all_connected:
  "project s = Some p \<Longrightarrow> desktop s = Some d \<Longrightarrow> app s = Some a \<Longrightarrow>
   release_all s = (Inr (), s\<lparr>history := history s @
      [ToolCall (ReleaseProject p), ToolCall (ReleaseDesktop d), ToolCall (ReleaseApp a),
       ToolCall ReleaseAnsys]\<rparr>)"
  by (simp add: release_all_def call_def)

subsection \<open>\<open>connect\<close>\<close>

text \<open>
  C1. In \<open>connect\<close>, when \<open>connect_design\<close> raises, the exception is printed, the project,
  the desktop, the application and the binding of the process to the tool are released
  in this order, and \<open>connect\<close> goes on with \<open>connect_setup\<close> on the object so obtained:
  it does not fail fast.
\<close>

theorem connect_design_failure_teardown:
  assumes "connect_project T s = (Inr (), s1)"
    and "project s1 = Some p"
    and "connect_design T None s1 = (Inl e, s2)"
  shows "\<exists>d a. project s2 = Some p \<and> desktop s2 = Some d \<and> app s2 = Some a \<and>
           connect T s =
             (case connect_setup T
                     (s2\<lparr>history := history s2 @
                          [Printed e, ToolCall (ReleaseProject p), ToolCall (ReleaseDesktop d),
                           ToolCall (ReleaseApp a), ToolCall ReleaseAnsys]\<rparr>) of
                (Inl e', s4) \<Rightarrow> (Inl e', s4)
              | (Inr u, s4) \<Rightarrow> (Inr (), connect_finalize T s4))"
proof -
  from connect_project_handles [OF assms(1)]
  obtain a d where h1: "app s1 = Some a" "desktop s1 = Some d"
    by blast
  from connect_design_frame [OF assms(3)] h1 assms(2)
  have h2: "project s2 = Some p" "desktop s2 = Some d" "app s2 = Some a"
    by simp_all
  let ?s = "s2\<lparr>history := history s2 @ [Printed e]\<rparr>"
  from h2 have "project ?s = Some p" "desktop ?s = Some d" "app ?s = Some a"
    by simp_all
  from release_all_connected [OF this]
  have r: "release_all ?s =
        (Inr (), s2\<lparr>history := history s2 @
           [Printed e, ToolCall (ReleaseProject p), ToolCall (ReleaseDesktop d),
            ToolCall (ReleaseApp a), ToolCall ReleaseAnsys]\<rparr>)"
    by simp
  have "connect T s =
          (case connect_setup T
                  (s2\<lparr>history := history s2 @
                       [Printed e, ToolCall (ReleaseProject p), ToolCall (ReleaseDesktop d),
                        ToolCall (ReleaseApp a), ToolCall ReleaseAnsys]\<rparr>) of
             (Inl e', s4) \<Rightarrow> (Inl e', s4)
           | (Inr u, s4) \<Rightarrow> (Inr (), connect_finalize T s4))"
    unfolding connect_def using assms r by simp
  with h2 show ?thesis
    by blast
qed

text \<open>A design name that the tool does not know: the four releases are followed by
  the last logger line of \<open>connect\<close>, and \<open>connect\<close> returns.\<close>

theorem connect_design_failure_teardown_witness:
  "connect_project fake_tool (new_pinfo\<lparr>design_name := Some ''design2''\<rparr>) =
     (Inr (), snd (connect_project fake_tool (new_pinfo\<lparr>design_name := Some ''design2''\<rparr>))) \<and>
   project (snd (connect_project fake_tool (new_pinfo\<lparr>design_name := Some ''design2''\<rparr>))) = Some 3 \<and>
   fst (connect_design fake_tool None
          (snd (connect_project fake_tool (new_pinfo\<lparr>design_name := Some ''design2''\<rparr>)))) =
     Inl (Exception ''Did you provide the correct design name? Failed to pull up design.'') \<and>
   fst (connect fake_tool (new_pinfo\<lparr>design_name := Some ''design2''\<rparr>)) = Inr () \<and>
   history (snd (connect fake_tool (new_pinfo\<lparr>design_name := Some ''design2''\<rparr>))) =
     [Log Info ''Connecting to Ansys Desktop API...'',
      ToolCall (LoadAnsysProject None None),
      ToolCall (GetDesigns 3),
      ToolCall (GetDesign 3 ''design2''),
      Log Error ''Original error'',
      Printed (Exception ''Did you provide the correct design name? Failed to pull up design.''),
      ToolCall (ReleaseProject 3), ToolCall (ReleaseDesktop 2), ToolCall (ReleaseApp 1),
      ToolCall ReleaseAnsys,
      Log Info ''Connected to project proj. No design detected'']"
  using connect_design_failure_teardown
    [of fake_tool "new_pinfo\<lparr>design_name := Some ''design2''\<rparr>"
        "snd (connect_project fake_tool (new_pinfo\<lparr>design_name := Some ''design2''\<rparr>))" 3
        "Exception ''Did you provide the correct design name? Failed to pull up design.''"
        "snd (connect_design fake_tool None
           (snd (connect_project fake_tool (new_pinfo\<lparr>design_name := Some ''design2''\<rparr>))))"]
  by (simp add: model_defs example_defs)

text \<open>
  C4, as the source has it. When \<open>connect_project\<close> yields no project, \<open>connect_design\<close>
  is skipped but \<open>connect_setup\<close> is still called. The design handle is left as it was
  and the object is not connected afterwards. When the design handle is null, as on a
  new object, no call other than \<open>load_ansys_project\<close> is made to the tool and
  \<open>connect_setup\<close> puts both \<open>setup\<close> and \<open>setup_name\<close> to \<open>None\<close>.
\<close>

theorem connect_null_project:
  assumes "connect_project T s = (Inr (), s1)" and "project s1 = None"
  shows "connect T s =
           (case connect_setup T (log Info ''Connection to Ansys NOT established.'' s1) of
              (Inl e, s4) \<Rightarrow> (Inl e, s4)
            | (Inr u, s4) \<Rightarrow> (Inr (), connect_finalize T s4)) \<and>
         \<not> check_connected (snd (connect T s)) \<and>
         design (snd (connect T s)) = design s \<and>
         (design s = None \<longrightarrow>
            fst (connect T s) = Inr () \<and>
            design_name (snd (connect T s)) = design_name s \<and>
            setup_h (snd (connect T s)) = None \<and>
            setup_name (snd (connect T s)) = None \<and>
            history (snd (connect T s)) =
              history s @
              [Log Info ''Connecting to Ansys Desktop API...'',
               ToolCall (LoadAnsysProject (project_name s) (project_path s)),
               Log Info ''Connection to Ansys NOT established.'',
               Log Info ''Project not detected in Ansys. Is there a project in your desktop app?'',
               Log Info (''Connected to project '' @ fmt (project_name s) @ ''. No design detected'')])"
proof -
  let ?s2 = "log Info ''Connection to Ansys NOT established.'' s1"
  note f1 = connect_project_frame [OF assms(1)]
  have c: "connect T s =
           (case connect_setup T ?s2 of
              (Inl e, s4) \<Rightarrow> (Inl e, s4)
            | (Inr u, s4) \<Rightarrow> (Inr (), connect_finalize T s4))"
    unfolding connect_def using assms by simp
  obtain r s3 where cs: "connect_setup T ?s2 = (r, s3)"
    by (cases "connect_setup T ?s2")
  note f3 = connect_setup_frame [OF cs]
  have p2: "project ?s2 = None" "design ?s2 = design s"
    using assms(2) f1 by (simp_all add: log_def)
  have p3: "project s3 = None" "design s3 = design s"
    using f3 p2 by simp_all
  have res: "project (snd (connect T s)) = None \<and> design (snd (connect T s)) = design s"
    using c cs p3 connect_finalize_frame [of T s3]
    by (cases r) simp_all
  have nc: "\<not> check_connected (snd (connect T s))"
    using res by (simp add: check_connected_def)
  have fresh: "design s = None \<longrightarrow>
            fst (connect T s) = Inr () \<and>
            design_name (snd (connect T s)) = design_name s \<and>
            setup_h (snd (connect T s)) = None \<and>
            setup_name (snd (connect T s)) = None \<and>
            history (snd (connect T s)) =
              history s @
              [Log Info ''Connecting to Ansys Desktop API...'',
               ToolCall (LoadAnsysProject (project_name s) (project_path s)),
               Log Info ''Connection to Ansys NOT established.'',
               Log Info ''Project not detected in Ansys. Is there a project in your desktop app?'',
               Log Info (''Connected to project '' @ fmt (project_name s) @ ''. No design detected'')]"
  proof
    assume d: "design s = None"
    with p2 have "connect_setup T ?s2 = (Inr (), ?s2\<lparr>setup_h := None, setup_name := None\<rparr>)"
      by (simp add: connect_setup_def)
    with c have "connect T s = (Inr (), connect_finalize T (?s2\<lparr>setup_h := None, setup_name := None\<rparr>))"
      by simp
    moreover have "project_name s1 = project_name s"
      using connect_project_name [OF assms] .
    ultimately show "fst (connect T s) = Inr () \<and>
            design_name (snd (connect T s)) = design_name s \<and>
            setup_h (snd (connect T s)) = None \<and>
            setup_name (snd (connect T s)) = None \<and>
            history (snd (connect T s)) =
              history s @
              [Log Info ''Connecting to Ansys Desktop API...'',
               ToolCall (LoadAnsysProject (project_name s) (project_path s)),
               Log Info ''Connection to Ansys NOT established.'',
               Log Info ''Project not detected in Ansys. Is there a project in your desktop app?'',
               Log Info (''Connected to project '' @ fmt (project_name s) @ ''. No design detected'')]"
      using f1 d assms(2)
      by (simp add: connect_finalize_def log_def)
  qed
  from c nc res fresh show ?thesis
    by blast
qed

theorem connect_null_project_witness:
  "connect_project no_project_tool (new_pinfo\<lparr>setup_name := Some ''Setup1''\<rparr>) =
     (Inr (), snd (connect_project no_project_tool (new_pinfo\<lparr>setup_name := Some ''Setup1''\<rparr>))) \<and>
   project (snd (connect_project no_project_tool (new_pinfo\<lparr>setup_name := Some ''Setup1''\<rparr>))) = None \<and>
   design (new_pinfo\<lparr>setup_name := Some ''Setup1''\<rparr>) = None \<and>
   \<not> check_connected (snd (connect no_project_tool (new_pinfo\<lparr>setup_name := Some ''Setup1''\<rparr>))) \<and>
   setup_name (snd (connect no_project_tool (new_pinfo\<lparr>setup_name := Some ''Setup1''\<rparr>))) = None \<and>
   history (snd (connect no_project_tool (new_pinfo\<lparr>setup_name := Some ''Setup1''\<rparr>))) =
     [Log Info ''Connecting to Ansys Desktop API...'',
      ToolCall (LoadAnsysProject None None),
      Log Info ''Connection to Ansys NOT established.'',
      Log Info ''Project not detected in Ansys. Is there a project in your desktop app?'',
      Log Info ''Connected to project None. No design detected'']"
  using connect_null_project
    [of no_project_tool "new_pinfo\<lparr>setup_name := Some ''Setup1''\<rparr>"
        "snd (connect_project no_project_tool (new_pinfo\<lparr>setup_name := Some ''Setup1''\<rparr>))"]
  by (simp add: model_defs example_defs no_project_tool_def)

text \<open>C4 as stated fails: a setup name given to the constructor is lost when the tool has
  no project.\<close>

theorem connect_null_project_counterexample:
  "fst (connect_project no_project_tool (new_pinfo\<lparr>setup_name := Some ''Setup1''\<rparr>)) = Inr () \<and>
   project (snd (connect_project no_project_tool (new_pinfo\<lparr>setup_name := Some ''Setup1''\<rparr>))) = None \<and>
   setup_name (new_pinfo\<lparr>setup_name := Some ''Setup1''\<rparr>) = Some ''Setup1'' \<and>
   setup_name (snd (connect no_project_tool (new_pinfo\<lparr>setup_name := Some ''Setup1''\<rparr>))) \<noteq>
     setup_name (new_pinfo\<lparr>setup_name := Some ''Setup1''\<rparr>)"
  by (simp add: model_defs example_defs no_project_tool_def)

subsection \<open>\<open>disconnect\<close>\<close>

text \<open>
  C6. \<open>check_connected\<close> holds exactly when none of the five handles is \<open>None\<close>. When
  it does not hold \<open>disconnect\<close> raises the \<open>AssertionError\<close> and nothing else happens;
  when it holds, \<open>disconnect\<close> releases the project, the desktop, the application and
  the binding of the process, in this order.
\<close>

theorem disconnect_precondition_and_order:
  "(check_connected s \<longleftrightarrow>
      setup_h s \<noteq> None \<and> design s \<noteq> None \<and> project s \<noteq> None \<and>
      desktop s \<noteq> None \<and> app s \<noteq> None) \<and>
   (\<not> check_connected s \<longrightarrow> disconnect s = (Inl (AssertionError NotConnected), s)) \<and>
   (check_connected s \<longrightarrow>
      (\<exists>p d a. project s = Some p \<and> desktop s = Some d \<and> app s = Some a \<and>
         disconnect s = (Inr (), s\<lparr>history := history s @
           [ToolCall (ReleaseProject p), ToolCall (ReleaseDesktop d), ToolCall (ReleaseApp a),
            ToolCall ReleaseAnsys]\<rparr>)))"
proof (intro conjI impI)
  show "check_connected s \<longleftrightarrow>
      setup_h s \<noteq> None \<and> design s \<noteq> None \<and> project s \<noteq> None \<and>
      desktop s \<noteq> None \<and> app s \<noteq> None"
    by (simp add: check_connected_def)
next
  assume "\<not> check_connected s"
  then show "disconnect s = (Inl (AssertionError NotConnected), s)"
    by (simp add: disconnect_def)
next
  assume c: "check_connected s"
  then obtain p d a where h: "project s = Some p" "desktop s = Some d" "app s = Some a"
    by (auto simp: check_connected_def)
  from c have "disconnect s = release_all s"
    by (simp add: disconnect_def)
  with h release_all_connected [OF h]
  show "\<exists>p d a. project s = Some p \<and> desktop s = Some d \<and> app s = Some a \<and>
         disconnect s = (Inr (), s\<lparr>history := history s @
           [ToolCall (ReleaseProject p), ToolCall (ReleaseDesktop d), ToolCall (ReleaseApp a),
            ToolCall ReleaseAnsys]\<rparr>)"
    by simp
qed

theorem disconnect_precondition_and_order_witness:
  "\<not> check_connected new_pinfo \<and>
   disconnect new_pinfo = (Inl (AssertionError NotConnected), new_pinfo) \<and>
   check_connected connected_pinfo \<and>
   disconnect connected_pinfo =
     (Inr (), connected_pinfo\<lparr>history := history connected_pinfo @
        [ToolCall (ReleaseProject 3), ToolCall (ReleaseDesktop 2), ToolCall (ReleaseApp 1),
         ToolCall ReleaseAnsys]\<rparr>)"
  using disconnect_precondition_and_order [of new_pinfo]
    disconnect_precondition_and_order [of connected_pinfo]
  by (simp add: new_pinfo_def connected_pinfo_def)

text \<open>\<open>disconnect\<close> has no assignment: whatever its outcome, the five handles are after
  the call what they were before it.\<close>

lemma disconnect_assigns_no_handle:
  assumes "disconnect s = (r, s')"
  shows "app s' = app s \<and> desktop s' = desktop s \<and> project s' = project s \<and>
         design s' = design s \<and> setup_h s' = setup_h s"
proof (cases "check_connected s")
  case True
  with assms have "release_all s = (r, s')"
    by (simp add: disconnect_def)
  from release_all_frame [OF this] have "s' = s\<lparr>history := history s'\<rparr>" .
  then show ?thesis
    by (metis pinfo.select_convs pinfo.surjective pinfo.update_convs(13))
next
  case False
  with assms show ?thesis
    by (auto simp: disconnect_def)
qed

text \<open>
  C5 says that after a successful \<open>disconnect\<close> the five handles are null. On the
  connected object \<open>disconnect\<close> succeeds and makes the four releases, and afterwards
  none of the five handles is \<open>None\<close>: \<open>check_connected\<close> still answers true for the
  disconnected object, so the assertion of \<open>disconnect\<close> lets a second call through,
  which releases the handles that were released already.
\<close>

theorem disconnect_leaves_handles_set:
  "fst (disconnect connected_pinfo) = Inr () \<and>
   history (snd (disconnect connected_pinfo)) =
     history connected_pinfo @
       [ToolCall (ReleaseProject 3), ToolCall (ReleaseDesktop 2), ToolCall (ReleaseApp 1),
        ToolCall ReleaseAnsys] \<and>
   app (snd (disconnect connected_pinfo)) = Some 1 \<and>
   desktop (snd (disconnect connected_pinfo)) = Some 2 \<and>
   project (snd (disconnect connected_pinfo)) = Some 3 \<and>
   design (snd (disconnect connected_pinfo)) = Some 4 \<and>
   setup_h (snd (disconnect connected_pinfo)) = Some 5 \<and>
   check_connected (snd (disconnect connected_pinfo)) \<and>
   fst (disconnect (snd (disconnect connected_pinfo))) = Inr () \<and>
   history (snd (disconnect (snd (disconnect connected_pinfo)))) =
     history connected_pinfo @
       [ToolCall (ReleaseProject 3), ToolCall (ReleaseDesktop 2), ToolCall (ReleaseApp 1),
        ToolCall ReleaseAnsys,
        ToolCall (ReleaseProject 3), ToolCall (ReleaseDesktop 2), ToolCall (ReleaseApp 1),
        ToolCall ReleaseAnsys]"
  by (simp add: model_defs connected_pinfo_def)

subsection \<open>\<open>validate_junction_info\<close>\<close>

lemma check_names_rect_line:
  "check_names objs jjnm jj [''rect'', ''line''] =
     (case jj ''rect'' of
        None \<Rightarrow> Inl (KeyError ''rect'')
      | Some r \<Rightarrow>
          if r \<in> set objs then
            (case jj ''line'' of
               None \<Rightarrow> Inl (KeyError ''line'')
             | Some l \<Rightarrow> if l \<in> set objs then Inr () else Inl (AssertionError (ObjectMissing jjnm ''line'' l)))
          else Inl (AssertionError (ObjectMissing jjnm ''rect'' r)))"
  by (simp split: option.splits)

lemma check_junctions_ok:
  "check_junctions vars objs js = Inr () \<longleftrightarrow> list_all (\<lambda>(jjnm, jj). junction_ok vars objs jj) js"
proof (induction js)
  case Nil
  show ?case by simp
next
  case (Cons a js)
  obtain jjnm jj where a: "a = (jjnm, jj)"
    by (cases a)
  show ?case
    unfolding a using Cons.IH
    by (simp add: junction_ok_def check_names_rect_line del: check_names.simps split: option.splits)
qed

lemma check_junctions_skip:
  "list_all (\<lambda>(jjnm, jj). junction_ok vars objs jj) pre \<Longrightarrow>
   check_junctions vars objs (pre @ rest) = check_junctions vars objs rest"
proof (induction pre)
  case Nil
  show ?case by simp
next
  case (Cons a pre)
  obtain jjnm jj where a: "a = (jjnm, jj)"
    by (cases a)
  from Cons.prems have ok: "junction_ok vars objs jj" and rest: "list_all (\<lambda>(jjnm, jj). junction_ok vars objs jj) pre"
    by (simp_all add: a)
  from ok show ?case
    unfolding a using Cons.IH [OF rest]
    by (simp add: junction_ok_def check_names_rect_line del: check_names.simps split: option.splits)
qed

text \<open>
  C8. With a project and a design connected, \<open>validate_junction_info\<close> takes the
  variable names of the project followed by those of the design, and the object names
  of the five groups. It succeeds exactly when every junction passes. Otherwise, at the
  first junction (in the order of the table) that does not pass, it raises the
  \<open>AssertionError\<close> of the first failing check in the order \<open>Lj_variable\<close>, \<open>rect\<close>,
  \<open>line\<close>, whose message carries the name of the junction, the field and the missing
  name; the junctions after it have no influence on the outcome.
\<close>

theorem validate_junction_info_first_failure:
  assumes "project s = Some p" and "design s = Some d"
    and "vars = project_get_variable_names T p @ design_get_variable_names T d"
    and "objs = concat (map (modeler_get_objects_in_group T d)
                   [''Non Model'', ''Solids'', ''Unclassified'', ''Sheets'', ''Lines''])"
  shows "get_all_variables_names T s = Inr vars \<and>
         get_all_object_names T s = Inr objs \<and>
         (validate_junction_info T s = Inr () \<longleftrightarrow>
            list_all (\<lambda>(jjnm, jj). junction_ok vars objs jj) (junctions s)) \<and>
         (\<forall>pre jjnm jj rest lj r l.
            junctions s = pre @ (jjnm, jj) # rest \<and>
            list_all (\<lambda>(jjnm, jj). junction_ok vars objs jj) pre \<and>
            jj ''Lj_variable'' = Some lj \<and> jj ''rect'' = Some r \<and> jj ''line'' = Some l \<longrightarrow>
            validate_junction_info T s =
              (if lj \<notin> set vars then Inl (AssertionError (LjVariableMissing jjnm lj))
               else if r \<notin> set objs then Inl (AssertionError (ObjectMissing jjnm ''rect'' r))
               else if l \<notin> set objs then Inl (AssertionError (ObjectMissing jjnm ''line'' l))
               else check_junctions vars objs rest))"
proof -
  have v: "get_all_variables_names T s = Inr vars"
    using assms by (simp add: get_all_variables_names_def)
  have ob: "get_all_object_names T s = Inr objs"
    using assms by (simp add: get_all_object_names_def)
  have val: "validate_junction_info T s = check_junctions vars objs (junctions s)"
    using v ob by (simp add: validate_junction_info_def)
  have all: "validate_junction_info T s = Inr () \<longleftrightarrow>
            list_all (\<lambda>(jjnm, jj). junction_ok vars objs jj) (junctions s)"
    using val check_junctions_ok by simp
  have first: "validate_junction_info T s =
              (if lj \<notin> set vars then Inl (AssertionError (LjVariableMissing jjnm lj))
               else if r \<notin> set objs then Inl (AssertionError (ObjectMissing jjnm ''rect'' r))
               else if l \<notin> set objs then Inl (AssertionError (ObjectMissing jjnm ''line'' l))
               else check_junctions vars objs rest)"
    if "junctions s = pre @ (jjnm, jj) # rest"
      and "list_all (\<lambda>(jjnm, jj). junction_ok vars objs jj) pre"
      and "jj ''Lj_variable'' = Some lj" and "jj ''rect'' = Some r" and "jj ''line'' = Some l"
    for pre jjnm jj rest lj r l
  proof -
    have "validate_junction_info T s = check_junctions vars objs ((jjnm, jj) # rest)"
      using val that(1) check_junctions_skip [OF that(2)] by simp
    then show ?thesis
      using that(3-5) by (simp add: check_names_rect_line del: check_names.simps)
  qed
  from v ob all first show ?thesis
    by blast
qed

lemma junctions_pinfo_split:
  "junctions junctions_pinfo =
     [(''j1'', [''Lj_variable'' \<mapsto> ''Lj_1'', ''rect'' \<mapsto> ''jj_rect_1'', ''line'' \<mapsto> ''jj_line_1''])] @
     (''j2'', [''Lj_variable'' \<mapsto> ''Lj_1'', ''rect'' \<mapsto> ''jj_rect_2'', ''line'' \<mapsto> ''jj_line_2'']) #
     [(''j3'', [''Lj_variable'' \<mapsto> ''Lj_3'', ''rect'' \<mapsto> ''jj_rect_1'', ''line'' \<mapsto> ''jj_line_1''])]"
  by (simp add: junctions_pinfo_def)

theorem validate_junction_info_first_failure_witness:
  "project junctions_pinfo = Some 3 \<and> design junctions_pinfo = Some 4 \<and>
   get_all_variables_names fake_tool junctions_pinfo = Inr [''$g'', ''Lj_1'', ''Cj_1''] \<and>
   get_all_object_names fake_tool junctions_pinfo = Inr [''jj_rect_1'', ''jj_line_1''] \<and>
   list_all (\<lambda>(jjnm, jj). junction_ok [''$g'', ''Lj_1'', ''Cj_1''] [''jj_rect_1'', ''jj_line_1''] jj)
     [(''j1'', [''Lj_variable'' \<mapsto> ''Lj_1'', ''rect'' \<mapsto> ''jj_rect_1'', ''line'' \<mapsto> ''jj_line_1''])] \<and>
   validate_junction_info fake_tool junctions_pinfo =
     Inl (AssertionError (ObjectMissing ''j2'' ''rect'' ''jj_rect_2''))"
proof -
  have p: "project junctions_pinfo = Some 3" and d: "design junctions_pinfo = Some 4"
    by (simp_all add: junctions_pinfo_def connected_pinfo_def)
  have v: "[''$g'', ''Lj_1'', ''Cj_1''] =
             project_get_variable_names fake_tool 3 @ design_get_variable_names fake_tool 4"
    by (simp add: fake_tool_def)
  have ob: "[''jj_rect_1'', ''jj_line_1''] =
              concat (map (modeler_get_objects_in_group fake_tool 4)
                [''Non Model'', ''Solids'', ''Unclassified'', ''Sheets'', ''Lines''])"
    by (simp add: fake_tool_def)
  have ok: "list_all (\<lambda>(jjnm, jj). junction_ok [''$g'', ''Lj_1'', ''Cj_1''] [''jj_rect_1'', ''jj_line_1''] jj)
     [(''j1'', [''Lj_variable'' \<mapsto> ''Lj_1'', ''rect'' \<mapsto> ''jj_rect_1'', ''line'' \<mapsto> ''jj_line_1''])]"
    by (simp add: junction_ok_def)
  note t = validate_junction_info_first_failure [OF p d v ob]
  from t have names: "get_all_variables_names fake_tool junctions_pinfo = Inr [''$g'', ''Lj_1'', ''Cj_1'']"
      "get_all_object_names fake_tool junctions_pinfo = Inr [''jj_rect_1'', ''jj_line_1'']"
    by blast+
  from t have "\<forall>pre jjnm jj rest lj r l.
            junctions junctions_pinfo = pre @ (jjnm, jj) # rest \<and>
            list_all (\<lambda>(jjnm, jj). junction_ok [''$g'', ''Lj_1'', ''Cj_1''] [''jj_rect_1'', ''jj_line_1''] jj) pre \<and>
            jj ''Lj_variable'' = Some lj \<and> jj ''rect'' = Some r \<and> jj ''line'' = Some l \<longrightarrow>
            validate_junction_info fake_tool junctions_pinfo =
              (if lj \<notin> set [''$g'', ''Lj_1'', ''Cj_1''] then Inl (AssertionError (LjVariableMissing jjnm lj))
               else if r \<notin> set [''jj_rect_1'', ''jj_line_1''] then Inl (AssertionError (ObjectMissing jjnm ''rect'' r))
               else if l \<notin> set [''jj_rect_1'', ''jj_line_1''] then Inl (AssertionError (ObjectMissing jjnm ''line'' l))
               else check_junctions [''$g'', ''Lj_1'', ''Cj_1''] [''jj_rect_1'', ''jj_line_1''] rest)"
    by blast
  from this [rule_format, of
      "[(''j1'', [''Lj_variable'' \<mapsto> ''Lj_1'', ''rect'' \<mapsto> ''jj_rect_1'', ''line'' \<mapsto> ''jj_line_1''])]"
      "''j2''" "[''Lj_variable'' \<mapsto> ''Lj_1'', ''rect'' \<mapsto> ''jj_rect_2'', ''line'' \<mapsto> ''jj_line_2'']"
      "[(''j3'', [''Lj_variable'' \<mapsto> ''Lj_3'', ''rect'' \<mapsto> ''jj_rect_1'', ''line'' \<mapsto> ''jj_line_1''])]"
      "''Lj_1''" "''jj_rect_2''" "''jj_line_2''"]
    junctions_pinfo_split ok
  have "validate_junction_info fake_tool junctions_pinfo =
     Inl (AssertionError (ObjectMissing ''j2'' ''rect'' ''jj_rect_2''))"
    by simp
  with p d names ok show ?thesis
    by blast
qed

lemma check_junctions_Cj:
  "check_junctions vars objs (map (\<lambda>(jjnm, jj). (jjnm, jj(''Cj_variable'' := f jjnm jj))) js) =
   check_junctions vars objs js"
proof (induction js)
  case Nil
  show ?case by simp
next
  case (Cons a js)
  obtain jjnm jj where a: "a = (jjnm, jj)"
    by (cases a)
  show ?case
    unfolding a using Cons.IH
    by (simp add: check_names_rect_line del: check_names.simps split: option.splits)
qed

text \<open>
  C10. \<open>validate_junction_info\<close> never reads \<open>Cj_variable\<close>: whatever is added, changed
  or removed under that key in any junction of the table, the outcome is the same.
\<close>

theorem validate_junction_info_ignores_Cj_variable:
  "validate_junction_info T
     (s\<lparr>junctions := map (\<lambda>(jjnm, jj). (jjnm, jj(''Cj_variable'' := f jjnm jj))) (junctions s)\<rparr>) =
   validate_junction_info T s"
  by (simp add: validate_junction_info_def get_all_variables_names_def get_all_object_names_def
        check_junctions_Cj split: option.splits)

subsection \<open>The constructor\<close>

lemma dissipative_setitem_frame:
  assumes "dissipative_setitem T key val s = (r, s')"
  shows "s' = s\<lparr>dissipative := dissipative s'\<rparr> \<and>
         (key \<noteq> ''pinfo'' \<longrightarrow> dissipative s' ''pinfo'' = dissipative s ''pinfo'')"
  using assms
  by (auto simp: dissipative_setitem_def split: if_splits sum.splits option.splits)

lemma setitem_all_frame:
  assumes "setitem_all T kvs s = (r, s')" and "''pinfo'' \<notin> fst ` set kvs"
  shows "s' = s\<lparr>dissipative := dissipative s'\<rparr> \<and> dissipative s' ''pinfo'' = dissipative s ''pinfo''"
  using assms
proof (induction kvs arbitrary: s)
  case Nil
  then show ?case by simp
next
  case (Cons kv kvs)
  obtain key val where kv: "kv = (key, val)"
    by (cases kv)
  obtain r1 s1 where st: "dissipative_setitem T key val s = (r1, s1)"
    by (cases "dissipative_setitem T key val s")
  from Cons.prems(2) kv have k: "key \<noteq> ''pinfo''" and ks: "''pinfo'' \<notin> fst ` set kvs"
    by auto
  note f = dissipative_setitem_frame [OF st]
  show ?case
  proof (cases r1)
    case (Inl e)
    with Cons.prems(1) kv st have "s' = s1" by simp
    with f k show ?thesis by simp
  next
    case (Inr u)
    with Cons.prems(1) kv st have "setitem_all T kvs s1 = (r, s')" by simp
    from Cons.IH [OF this ks] have
      a: "s' = s1\<lparr>dissipative := dissipative s'\<rparr>" and
      b: "dissipative s' ''pinfo'' = dissipative s1 ''pinfo''"
      by simp_all
    from f have c: "s1 = s\<lparr>dissipative := dissipative s1\<rparr>" by simp
    have "s' = s\<lparr>dissipative := dissipative s'\<rparr>"
      by (subst a, subst c) simp
    with b f k show ?thesis by simp
  qed
qed

lemma init_slots:
  "setitem_all T ((''pinfo'', PNone) # map (\<lambda>opt. (opt, PNone)) diss_opt) s =
     (Inr (), s\<lparr>dissipative := (dissipative s)
        (''pinfo'' \<mapsto> PNone, ''dielectrics_bulk'' \<mapsto> PNone, ''dielectric_surfaces'' \<mapsto> PNone,
         ''resistive_surfaces'' \<mapsto> PNone, ''seams'' \<mapsto> PNone)\<rparr>)"
  by (simp add: diss_opt_def dissipative_setitem_def dissipative_getitem_def hasattr_design_def)

lemma connect_frame:
  assumes "connect T s = (r, s')"
  shows "junctions s' = junctions s \<and> ports s' = ports s \<and> dissipative s' = dissipative s"
proof -
  obtain r1 s1 where cp: "connect_project T s = (r1, s1)"
    by (cases "connect_project T s")
  note f1 = connect_project_frame [OF cp]
  show ?thesis
  proof (cases r1)
    case (Inl e)
    with assms cp have "s' = s1" by (simp add: connect_def)
    with f1 show ?thesis by simp
  next
    case (Inr u)
    define mid where
      "mid = (case project s1 of
                None \<Rightarrow> (Inr (), log Info ''Connection to Ansys NOT established.'' s1)
              | Some p \<Rightarrow>
                  (case connect_design T None s1 of
                     (Inr u, s2) \<Rightarrow> (Inr (), s2)
                   | (Inl e, s2) \<Rightarrow> release_all (s2\<lparr>history := history s2 @ [Printed e]\<rparr>)))"
    obtain r3 s3 where m: "mid = (r3, s3)"
      by (cases mid)
    have f3: "junctions s3 = junctions s1 \<and> ports s3 = ports s1 \<and> dissipative s3 = dissipative s1"
    proof (cases "project s1")
      case None
      with m show ?thesis by (auto simp: mid_def log_def)
    next
      case (Some p)
      obtain r2 s2 where cd: "connect_design T None s1 = (r2, s2)"
        by (cases "connect_design T None s1")
      note f2 = connect_design_frame [OF cd]
      show ?thesis
      proof (cases r2)
        case (Inr u2)
        with m Some cd have "s3 = s2" by (simp add: mid_def)
        with f2 show ?thesis by simp
      next
        case (Inl e2)
        with m Some cd have "release_all (s2\<lparr>history := history s2 @ [Printed e2]\<rparr>) = (r3, s3)"
          by (simp add: mid_def)
        from release_all_frame [OF this] have "s3 = s2\<lparr>history := history s3\<rparr>"
          by simp
        then have "junctions s3 = junctions s2 \<and> ports s3 = ports s2 \<and> dissipative s3 = dissipative s2"
          by (metis pinfo.select_convs pinfo.surjective pinfo.update_convs(13))
        with f2 show ?thesis by simp
      qed
    qed
    have c: "connect T s =
               (case mid of
                  (Inl e, s3) \<Rightarrow> (Inl e, s3)
                | (Inr u, s3) \<Rightarrow>
                    (case connect_setup T s3 of
                       (Inl e, s4) \<Rightarrow> (Inl e, s4)
                     | (Inr u, s4) \<Rightarrow> (Inr (), connect_finalize T s4)))"
      using cp Inr by (simp add: connect_def mid_def)
    show ?thesis
    proof (cases r3)
      case (Inl e3)
      with c m assms have "s' = s3" by simp
      with f3 f1 show ?thesis by simp
    next
      case (Inr u3)
      obtain r4 s4 where cs: "connect_setup T s3 = (r4, s4)"
        by (cases "connect_setup T s3")
      note f4 = connect_setup_frame [OF cs]
      from c m Inr cs assms have "s' = s4 \<or> s' = connect_finalize T s4"
        by (cases r4) auto
      with f4 f3 f1 connect_finalize_frame [of T s4] show ?thesis
        by auto
    qed
  qed
qed

text \<open>
  C9, as the source has it. Every construction that completes leaves empty junction and
  port tables. The back-reference \<open>'pinfo'\<close> of the dissipative configuration is the new
  object when \<open>do_connect\<close> is true and \<open>None\<close> when it is false: the assignment is in the
  body of \<open>if do_connect\<close>.
\<close>

theorem init_tables_and_back_reference:
  assumes "init T project_path0 project_name0 design_name0 setup_name0
             dielectrics_bulk dielectric_surfaces resistive_surfaces seams do_connect = (Inr (), s)"
  shows "junctions s = [] \<and> ports s = [] \<and>
         dissipative s ''pinfo'' = Some (if do_connect then PInfoRef else PNone)"
proof -
  define s0 where
    "s0 = \<lparr>project_path = map_option (path_str T) project_path0,
           project_name = project_name0, design_name = design_name0, setup_name = setup_name0,
           junctions = [], ports = [], dissipative = Map.empty,
           app = None, desktop = None, project = None, design = None, setup_h = None,
           history = []\<rparr>"
  define s1 where
    "s1 = s0\<lparr>dissipative := (dissipative s0)
        (''pinfo'' \<mapsto> PNone, ''dielectrics_bulk'' \<mapsto> PNone, ''dielectric_surfaces'' \<mapsto> PNone,
         ''resistive_surfaces'' \<mapsto> PNone, ''seams'' \<mapsto> PNone)\<rparr>"
  let ?kvs = "zip diss_opt [dielectrics_bulk, dielectric_surfaces, resistive_surfaces, seams]"
  have p1: "junctions s1 = [] \<and> ports s1 = [] \<and> dissipative s1 ''pinfo'' = Some PNone"
    by (simp add: s1_def s0_def)
  obtain r2 s2 where w: "setitem_all T ?kvs s1 = (r2, s2)"
    by (cases "setitem_all T ?kvs s1")
  have "''pinfo'' \<notin> fst ` set ?kvs"
    by (simp add: diss_opt_def)
  from setitem_all_frame [OF w this] have
    a: "s2 = s1\<lparr>dissipative := dissipative s2\<rparr>" and
    b: "dissipative s2 ''pinfo'' = dissipative s1 ''pinfo''"
    by simp_all
  have "junctions s2 = junctions s1 \<and> ports s2 = ports s1"
    by (subst a, subst a) simp
  with p1 b have p2: "junctions s2 = [] \<and> ports s2 = [] \<and> dissipative s2 ''pinfo'' = Some PNone"
    by simp
  have i: "init T project_path0 project_name0 design_name0 setup_name0
             dielectrics_bulk dielectric_surfaces resistive_surfaces seams do_connect =
           (case (r2, s2) of
              (Inl e, s2) \<Rightarrow> (Inl e, s2)
            | (Inr u, s2) \<Rightarrow>
                if do_connect then
                  (case connect T s2 of
                     (Inl e, s3) \<Rightarrow> (Inl e, s3)
                   | (Inr u, s3) \<Rightarrow> dissipative_setitem T ''pinfo'' PInfoRef s3)
                else (Inr (), s2))"
    unfolding init_def Let_def s0_def [symmetric] init_slots s1_def [symmetric]
    by (simp add: w)
  show ?thesis
  proof (cases do_connect)
    case False
    with i assms have "s = s2"
      by (cases r2) simp_all
    with p2 False show ?thesis by simp
  next
    case True
    obtain r3 s3 where c: "connect T s2 = (r3, s3)"
      by (cases "connect T s2")
    from i assms True c have "dissipative_setitem T ''pinfo'' PInfoRef s3 = (Inr (), s)"
      by (cases r2; cases r3) simp_all
    then have "s = s3\<lparr>dissipative := (dissipative s3)(''pinfo'' \<mapsto> PInfoRef)\<rparr>"
      by (simp add: dissipative_setitem_def)
    with connect_frame [OF c] p2 True show ?thesis by simp
  qed
qed

theorem init_tables_and_back_reference_witness:
  "init fake_tool None None None None PNone PNone PNone PNone True = (Inr (), connected_pinfo) \<and>
   init fake_tool None None None None PNone PNone PNone PNone False = (Inr (), new_pinfo) \<and>
   junctions connected_pinfo = [] \<and> ports connected_pinfo = [] \<and>
   dissipative connected_pinfo ''pinfo'' = Some PInfoRef \<and>
   junctions new_pinfo = [] \<and> ports new_pinfo = [] \<and>
   dissipative new_pinfo ''pinfo'' = Some PNone"
  using init_tables_and_back_reference [OF init_connected]
    init_tables_and_back_reference [OF init_new] init_connected init_new
  by simp

text \<open>C9 as stated fails: built with \<open>do_connect=False\<close>, the object has no
  back-reference, and a write of a name that the model does not have is accepted.\<close>

theorem init_back_reference_counterexample:
  "fst (init fake_tool None None None None PNone PNone PNone PNone False) = Inr () \<and>
   dissipative (snd (init fake_tool None None None None PNone PNone PNone PNone False)) ''pinfo'' \<noteq>
     Some PInfoRef \<and>
   get_all_object_names fake_tool connected_pinfo = Inr [''jj_rect_1'', ''jj_line_1''] \<and>
   fst (dissipative_setitem fake_tool ''seams'' (PList [PStr ''no_such_object''])
          (snd (init fake_tool None None None None PNone PNone PNone PNone False))) = Inr ()"
  by (simp add: init_new) (simp add: model_defs example_defs)

subsection \<open>\<open>get_setup\<close>\<close>

text \<open>A null name is returned as it is and nothing changes; a name that the design
  resolves is stored with its handle.\<close>

lemma get_setup_None: "get_setup T None s = (Inr None, s)"
  by (simp add: get_setup_def)

lemma get_setup_resolved:
  assumes "design s = Some d" and "design_get_setup T d n = Inr (Some h)"
  shows "get_setup T (Some n) s =
           (Inr (Some h),
            s\<lparr>setup_h := Some h, setup_name := Some (setup_name_attr T h),
              history := history s @ [ToolCall (GetSetup d n),
                                      Log Info (''Opened setup '' @ setup_name_attr T h)]\<rparr>)"
  using assms by (simp add: get_setup_def log_def call_def)

text \<open>When the design answers \<open>None\<close> for a name, the error is logged and the statement
  \<open>self.setup_name = self.setup.name\<close> that follows raises.\<close>

lemma get_setup_not_found:
  assumes "design s = Some d" and "design_get_setup T d n = Inr None"
  shows "get_setup T (Some n) s =
           (Inl AttributeError,
            s\<lparr>setup_h := None,
              history := history s @
                [ToolCall (GetSetup d n),
                 Log Error (''Could not retrieve setup: '' @ n @
                            '' Did you give the right name? Does it exist?'')]\<rparr>)"
  using assms by (simp add: get_setup_def log_def call_def)

text \<open>
  C2 says that a name which the design does not resolve is logged and that no exception
  is raised, the caller finding \<open>None\<close>. On the connected object, \<open>get_setup('Setup2')\<close>
  against a design that answers \<open>None\<close> for \<open>Setup2\<close> logs the error and then leaves with
  an \<open>AttributeError\<close>, \<open>self.setup\<close> having been put to \<open>None\<close>.
\<close>

theorem get_setup_unresolved_raises:
  "design connected_pinfo = Some 4 \<and>
   design_get_setup fake_tool 4 ''Setup2'' = Inr None \<and>
   get_setup fake_tool (Some ''Setup2'') connected_pinfo =
     (Inl AttributeError,
      connected_pinfo\<lparr>setup_h := None,
        history := history connected_pinfo @
          [ToolCall (GetSetup 4 ''Setup2''),
           Log Error ''Could not retrieve setup: Setup2 Did you give the right name? Does it exist?'']\<rparr>)"
  by (simp add: get_setup_def log_def call_def fake_tool_def connected_pinfo_def)

subsection \<open>\<open>connect_setup\<close>\<close>

text \<open>
  For a design without setups whose solution type is one of the four that the source
  knows, exactly the creation call of that type is made, the name of the created setup
  is looked up in the design, and the setup found is stored with its name.
\<close>

lemma connect_setup_default_em:
  assumes "design s = Some d" and "design_get_setup_names T d = Inr []"
    and "design_solution_type T d = ''Eigenmode''"
    and "design_create_em_setup T d = Inr (Some h)"
    and "design_get_setup T d (setup_name_attr T h) = Inr (Some h')"
  shows "connect_setup T s =
           (Inr (),
            s\<lparr>setup_h := Some h', setup_name := Some (setup_name_attr T h'),
              history := history s @
                [ToolCall (GetSetupNames d),
                 Log Warning ''No design setup detected.'',
                 Log Warning ''Creating eigenmode default setup.'',
                 ToolCall (CreateEmSetup d),
                 ToolCall (GetSetup d (setup_name_attr T h)),
                 Log Info (''Opened setup '' @ setup_name_attr T h')]\<rparr>)"
  using assms
  by (simp add: connect_setup_def connect_setup_try_def create_default_setup_def get_setup_def
        log_def call_def)

lemma connect_setup_default_dm:
  assumes "design s = Some d" and "design_get_setup_names T d = Inr []"
    and "design_solution_type T d = ''DrivenModal''"
    and "design_create_dm_setup T d = Inr (Some h)"
    and "design_get_setup T d (setup_name_attr T h) = Inr (Some h')"
  shows "connect_setup T s =
           (Inr (),
            s\<lparr>setup_h := Some h', setup_name := Some (setup_name_attr T h'),
              history := history s @
                [ToolCall (GetSetupNames d),
                 Log Warning ''No design setup detected.'',
                 Log Warning ''Creating driven modal default setup.'',
                 ToolCall (CreateDmSetup d),
                 ToolCall (GetSetup d (setup_name_attr T h)),
                 Log Info (''Opened setup '' @ setup_name_attr T h')]\<rparr>)"
  using assms
  by (simp add: connect_setup_def connect_setup_try_def create_default_setup_def get_setup_def
        log_def call_def)

lemma connect_setup_default_dt:
  assumes "design s = Some d" and "design_get_setup_names T d = Inr []"
    and "design_solution_type T d = ''DrivenTerminal''"
    and "design_create_dt_setup T d = Inr (Some h)"
    and "design_get_setup T d (setup_name_attr T h) = Inr (Some h')"
  shows "connect_setup T s =
           (Inr (),
            s\<lparr>setup_h := Some h', setup_name := Some (setup_name_attr T h'),
              history := history s @
                [ToolCall (GetSetupNames d),
                 Log Warning ''No design setup detected.'',
                 Log Warning ''Creating driven terminal default setup.'',
                 ToolCall (CreateDtSetup d),
                 ToolCall (GetSetup d (setup_name_attr T h)),
                 Log Info (''Opened setup '' @ setup_name_attr T h')]\<rparr>)"
  using assms
  by (simp add: connect_setup_def connect_setup_try_def create_default_setup_def get_setup_def
        log_def call_def)

lemma connect_setup_default_q3d:
  assumes "design s = Some d" and "design_get_setup_names T d = Inr []"
    and "design_solution_type T d = ''Q3D''"
    and "design_create_q3d_setup T d = Inr (Some h)"
    and "design_get_setup T d (setup_name_attr T h) = Inr (Some h')"
  shows "connect_setup T s =
           (Inr (),
            s\<lparr>setup_h := Some h', setup_name := Some (setup_name_attr T h'),
              history := history s @
                [ToolCall (GetSetupNames d),
                 Log Warning ''No design setup detected.'',
                 Log Warning ''Creating Q3D default setup.'',
                 ToolCall (CreateQ3dSetup d),
                 ToolCall (GetSetup d (setup_name_attr T h)),
                 Log Info (''Opened setup '' @ setup_name_attr T h')]\<rparr>)"
  using assms
  by (simp add: connect_setup_def connect_setup_try_def create_default_setup_def get_setup_def
        log_def call_def)

text \<open>For any other solution type no creation call is made, and \<open>setup.name\<close> on the
  local variable that is still \<open>None\<close> raises inside the \<open>try\<close>; the handler raises anew.\<close>

lemma connect_setup_other_type:
  assumes "design s = Some d" and "design_get_setup_names T d = Inr []"
    and "design_solution_type T d \<notin> {''Eigenmode'', ''DrivenModal'', ''DrivenTerminal'', ''Q3D''}"
  shows "connect_setup T s =
           (Inl (Exception ''Did you provide the correct setup name? Failed to pull up setup.''),
            s\<lparr>history := history s @
                [ToolCall (GetSetupNames d),
                 Log Warning ''No design setup detected.'',
                 Log Error ''Original error'']\<rparr>)"
  using assms
  by (simp add: connect_setup_def connect_setup_try_def create_default_setup_def
        log_def call_def)

text \<open>
  C3 says that for a solution type outside the four, \<open>connect_setup\<close> leaves the setup
  null, creates no default and does not raise. For a design of type \<open>Transient\<close> without
  setups no default is created and the setup stays as it was, but \<open>connect_setup\<close>
  raises, and so does the constructor that connects to such a design.
\<close>

theorem connect_setup_unrecognized_raises:
  "design connected_pinfo = Some 4 \<and>
   design_get_setup_names transient_tool 4 = Inr [] \<and>
   design_solution_type transient_tool 4 = ''Transient'' \<and>
   connect_setup transient_tool (connected_pinfo\<lparr>setup_h := None, setup_name := None\<rparr>) =
     (Inl (Exception ''Did you provide the correct setup name? Failed to pull up setup.''),
      connected_pinfo\<lparr>setup_h := None, setup_name := None,
        history := history connected_pinfo @
          [ToolCall (GetSetupNames 4),
           Log Warning ''No design setup detected.'',
           Log Error ''Original error'']\<rparr>) \<and>
   fst (init transient_tool None None None None PNone PNone PNone PNone True) =
     Inl (Exception ''Did you provide the correct setup name? Failed to pull up setup.'')"
  by (simp add: model_defs example_defs transient_tool_def)

subsection \<open>Writes to the dissipative configuration\<close>

text \<open>An unknown key, and a value for a slot that is neither \<open>None\<close> nor a list or dict of
  strings, raise \<open>ValueError\<close> and leave the object as it was.\<close>

lemma dissipative_setitem_bad_key:
  assumes "key \<notin> set diss_opt" and "key \<noteq> ''pinfo''"
  shows "dissipative_setitem T key val s = (Inl (ValueError (''No such parameter '' @ key)), s)"
  using assms by (simp add: dissipative_setitem_def)

lemma dissipative_setitem_bad_value:
  assumes "key \<in> set diss_opt" and "val \<noteq> PNone"
    and "\<not> (is_list_or_dict val \<and> all_str val)"
  shows "dissipative_setitem T key val s =
           (Inl (ValueError (''dissipative['' @ key @ ''] must be a list of strings'')), s)"
proof -
  from assms(1) have "key \<noteq> ''pinfo''"
    by (auto simp: diss_opt_def)
  with assms show ?thesis
    by (auto simp: dissipative_setitem_def)
qed

lemma check_objects_all:
  "check_objects (Inr names) xs = Inr () \<longleftrightarrow> list_all (\<lambda>x. py_in x names) xs"
  by (induction xs) auto

text \<open>Once the back-reference is set, a list of strings is accepted exactly when all of
  them are object names of the model at the time of the write.\<close>

lemma dissipative_setitem_attached:
  assumes "key \<in> set diss_opt" and "dissipative s ''pinfo'' = Some PInfoRef"
    and "list_all is_str xs" and "get_all_object_names T s = Inr names"
  shows "fst (dissipative_setitem T key (PList xs) s) = Inr () \<longleftrightarrow> list_all (\<lambda>x. py_in x names) xs"
    and "\<not> list_all (\<lambda>x. py_in x names) xs \<Longrightarrow> snd (dissipative_setitem T key (PList xs) s) = s"
proof -
  from assms(1) have k: "key \<noteq> ''pinfo''"
    by (auto simp: diss_opt_def)
  have d: "dissipative_setitem T key (PList xs) s =
        (case check_objects (Inr names) xs of
           Inl e \<Rightarrow> (Inl e, s)
         | Inr u \<Rightarrow> (Inr (), s\<lparr>dissipative := (dissipative s)(key \<mapsto> PList xs)\<rparr>))"
    using assms k
    by (simp add: dissipative_setitem_def dissipative_getitem_def hasattr_design_def all_str_def)
  show "fst (dissipative_setitem T key (PList xs) s) = Inr () \<longleftrightarrow> list_all (\<lambda>x. py_in x names) xs"
    using check_objects_all [of names xs] unfolding d
    by (cases "check_objects (Inr names) xs") simp_all
  show "snd (dissipative_setitem T key (PList xs) s) = s" if "\<not> list_all (\<lambda>x. py_in x names) xs"
    using check_objects_all [of names xs] that unfolding d
    by (cases "check_objects (Inr names) xs") simp_all
qed

text \<open>\<open>None\<close> is accepted as long as the back-reference is not set; once it is set, the loop
  \<open>for x in value\<close> runs on \<open>None\<close>.\<close>

lemma dissipative_setitem_None_unattached:
  assumes "key \<in> set diss_opt" and "dissipative s ''pinfo'' = Some PNone"
  shows "dissipative_setitem T key PNone s = (Inr (), s\<lparr>dissipative := (dissipative s)(key \<mapsto> PNone)\<rparr>)"
proof -
  from assms(1) have k: "key \<noteq> ''pinfo''"
    by (auto simp: diss_opt_def)
  with assms show ?thesis
    by (simp add: dissipative_setitem_def dissipative_getitem_def hasattr_design_def)
qed

lemma dissipative_setitem_None_attached:
  assumes "key \<in> set diss_opt" and "dissipative s ''pinfo'' = Some PInfoRef"
  shows "dissipative_setitem T key PNone s = (Inl TypeError, s)"
proof -
  from assms(1) have k: "key \<noteq> ''pinfo''"
    by (auto simp: diss_opt_def)
  with assms show ?thesis
    by (simp add: dissipative_setitem_def dissipative_getitem_def hasattr_design_def)
qed

text \<open>
  C7 says that a null value is always accepted. On the object that \<open>ProjectInfo()\<close>
  builds against the test double, \<open>dissipative['seams'] = None\<close> raises \<open>TypeError\<close>, and
  the object is left as it was.
\<close>

theorem dissipative_setitem_None_raises:
  "init fake_tool None None None None PNone PNone PNone PNone True = (Inr (), connected_pinfo) \<and>
   dissipative_setitem fake_tool ''seams'' PNone connected_pinfo = (Inl TypeError, connected_pinfo)"
  by (simp add: init_connected) (simp add: model_defs example_defs)

text \<open>The path of that write through \<open>__setitem__\<close>: the key is a slot, the value
  check lets \<open>None\<close> pass, the back-reference is set, and \<open>None\<close> is not iterable.\<close>

theorem dissipative_setitem_None_raises_witness:
  "''seams'' \<in> set diss_opt \<and>
   \<not> is_list_or_dict PNone \<and>
   dissipative_getitem connected_pinfo ''pinfo'' = Inr PInfoRef \<and>
   hasattr_design PInfoRef \<and>
   py_iter PNone = None \<and>
   fst (dissipative_setitem fake_tool ''seams'' PNone connected_pinfo) = Inl TypeError \<and>
   snd (dissipative_setitem fake_tool ''seams'' PNone connected_pinfo) = connected_pinfo"
  using dissipative_setitem_None_raises
  by (simp add: diss_opt_def dissipative_getitem_def hasattr_design_def connected_pinfo_def
        no_slots_def)

end
